theory Spec2Isabelle
  imports Main "HOL-Library.AList"
begin

section \<open>Python values used by the node\<close>

text \<open>
  The node is written in Python. Integers are unbounded (\<open>int\<close>), \<open>str\<close> and
  \<open>bytes\<close> are character lists (every character of the protocol is ASCII, so
  \<open>str.encode()\<close> is the identity), a raised exception is the \<open>Inl\<close> branch of a sum.
\<close>

datatype error =
    ValueError | KeyError | IndexError | TypeError | OverflowError | SecurityError
  | NoSuchKey | MultipleObjectsReturned

type_synonym bytes = string

definition hex_digit :: "nat \<Rightarrow> char" where
  "hex_digit d = ''0123456789abcdef'' ! d"

fun hex_of_nat :: "nat \<Rightarrow> string" where
  "hex_of_nat n =
     (if n < 16 then [hex_digit n] else hex_of_nat (n div 16) @ [hex_digit (n mod 16)])"

declare hex_of_nat.simps [simp del]

text \<open>\<open>format(v, 'x')\<close>: lowercase hexadecimal, a minus sign for a negative value.\<close>

definition format_x :: "int \<Rightarrow> string" where
  "format_x v = (if v < 0 then CHR ''-'' # hex_of_nat (nat (- v)) else hex_of_nat (nat v))"

definition zfill :: "nat \<Rightarrow> string \<Rightarrow> string" where
  "zfill w s = replicate (w - length s) CHR ''0'' @ s"

text \<open>\<open>format(v, '064x')\<close>: zero padding to 64 characters, the sign counted in the width.\<close>

definition format_064x :: "int \<Rightarrow> string" where
  "format_064x v =
     (if v < 0 then CHR ''-'' # zfill 63 (hex_of_nat (nat (- v))) else zfill 64 (hex_of_nat (nat v)))"

text \<open>\<open>bytes.hex()\<close> and \<open>int.from_bytes(b, 'big')\<close>.\<close>

definition bytes_hex :: "bytes \<Rightarrow> string" where
  "bytes_hex b =
     concat (map (\<lambda>c. [hex_digit (of_char c div 16), hex_digit (of_char c mod 16)]) b)"

definition int_from_bytes :: "bytes \<Rightarrow> int" where
  "int_from_bytes b = foldl (\<lambda>acc c. acc * 256 + of_char c) 0 b"

text \<open>
  \<open>int(s, base)\<close> on an ASCII string, as CPython parses it: surrounding whitespace is
  stripped, one sign is allowed, base 16 accepts a \<open>0x\<close> prefix, digits may be separated
  by single underscores, letters count in either case, and anything else raises
  ValueError (\<open>None\<close> here).
\<close>

definition is_space :: "char \<Rightarrow> bool" where
  "is_space c =
     (c \<in> set [CHR 0x09, CHR 0x0A, CHR 0x0B, CHR 0x0C, CHR 0x0D,
               CHR 0x1C, CHR 0x1D, CHR 0x1E, CHR 0x1F, CHR 0x20])"

definition digit_value :: "char \<Rightarrow> nat option" where
  "digit_value c =
     (let n = (of_char c :: nat)
      in if 48 \<le> n \<and> n \<le> 57 then Some (n - 48)
         else if 97 \<le> n \<and> n \<le> 122 then Some (n - 87)
         else if 65 \<le> n \<and> n \<le> 90 then Some (n - 55)
         else None)"

fun py_digits :: "nat \<Rightarrow> nat \<Rightarrow> string \<Rightarrow> nat option" where
  "py_digits b acc [] = Some acc"
| "py_digits b acc (c # cs) =
     (if c = CHR ''_'' then
        (case cs of
           [] \<Rightarrow> None
         | d # ds \<Rightarrow>
             (case digit_value d of
                None \<Rightarrow> None
              | Some v \<Rightarrow> if v < b then py_digits b (acc * b + v) ds else None))
      else
        (case digit_value c of
           None \<Rightarrow> None
         | Some v \<Rightarrow> if v < b then py_digits b (acc * b + v) cs else None))"

definition py_int_body :: "nat \<Rightarrow> string \<Rightarrow> nat option" where
  "py_int_body b s =
     (case s of [] \<Rightarrow> None | c # cs \<Rightarrow> if c = CHR ''_'' then None else py_digits b 0 s)"

definition py_int :: "nat \<Rightarrow> string \<Rightarrow> int option" where
  "py_int b s =
     (let s1 = rev (dropWhile is_space (rev (dropWhile is_space s)));
          neg = (take 1 s1 = ''-'');
          s2 = (if take 1 s1 = ''-'' \<or> take 1 s1 = ''+'' then drop 1 s1 else s1);
          s3 = (if b = 16 \<and> (take 2 s2 = ''0x'' \<or> take 2 s2 = ''0X'')
                then (if take 1 (drop 2 s2) = ''_'' then drop 3 s2 else drop 2 s2)
                else s2)
      in case py_int_body b s3 of
           None \<Rightarrow> None
         | Some n \<Rightarrow> Some (if neg then - int n else int n))"

text \<open>\<open>s.replace(old, '')\<close> for a non-empty \<open>old\<close>: every occurrence, left to right.\<close>

fun str_remove :: "string \<Rightarrow> string \<Rightarrow> string" where
  "str_remove old [] = []"
| "str_remove old (c # cs) =
     (if old \<noteq> [] \<and> take (length old) (c # cs) = old
      then str_remove old (drop (length old - 1) cs)
      else c # str_remove old cs)"

text \<open>\<open>pow(b, e, m)\<close> with a non-negative exponent.\<close>

definition py_pow :: "int \<Rightarrow> nat \<Rightarrow> int \<Rightarrow> int" where
  "py_pow b e m = (b ^ e) mod m"

text \<open>
  \<open>pow(a, -1, m)\<close> for a positive modulus: the inverse in \<open>[0, m)\<close>, ValueError when
  \<open>a\<close> is not invertible.
\<close>

definition mod_inverse :: "int \<Rightarrow> int \<Rightarrow> error + int" where
  "mod_inverse a m =
     (if gcd (nat (a mod m)) (nat m) = 1
      then Inr (fst (bezw (nat (a mod m)) (nat m)) mod m)
      else Inl ValueError)"

section \<open>The curve layer (\<open>crypto.py\<close>)\<close>

text \<open>
  \<open>CURVE\<close> is the curve object of the elliptic-curve library: its field prime \<open>p\<close>, the
  coefficients \<open>a\<close> and \<open>b\<close>, the group order \<open>q\<close> and the generator. The node fixes
  \<open>CURVE = secp256k1\<close>; the functions below take the curve object as a parameter.
\<close>

record curve =
  cp :: int
  ca :: int
  cb :: int
  cq :: int
  cgx :: int
  cgy :: int

definition secp256k1 :: curve where
  "secp256k1 = \<lparr>
     cp = 0xFFFFFFFFFFFFFFFFFFFFFFFFFFFFFFFFFFFFFFFFFFFFFFFFFFFFFFFEFFFFFC2F,
     ca = 0,
     cb = 7,
     cq = 0xFFFFFFFFFFFFFFFFFFFFFFFFFFFFFFFEBAAEDCE6AF48A03BBFD25E8CD0364141,
     cgx = 0x79BE667EF9DCBBAC55A06295CE870B07029BFCDB2DCE28D959F2815B16F81798,
     cgy = 0x483ADA7726A3C4655DA4FBFC0E1108A8FD17B448A68554199C47D08FFB10D4B8 \<rparr>"

datatype point = Point (px: int) (py: int)

definition ORDER :: "curve \<Rightarrow> int" where
  "ORDER C = cq C"

definition G :: "curve \<Rightarrow> point" where
  "G C = Point (cgx C) (cgy C)"

text \<open>
  The library's point arithmetic, which is not part of the repository, is modelled by the
  affine group law: the point at infinity has coordinates \<open>(0, 0)\<close> (as \<open>is_identity\<close>
  of the source expects), the constructor \<open>Point(x, y, curve)\<close> raises ValueError for
  coordinates that do not satisfy the curve equation modulo \<open>p\<close>, and \<open>k * P\<close> reduces
  the scalar modulo the group order.
\<close>

definition IDENTITY :: point where
  "IDENTITY = Point 0 0"

definition is_point_on_curve :: "curve \<Rightarrow> int \<Rightarrow> int \<Rightarrow> bool" where
  "is_point_on_curve C x y = ((y * y - (x * x * x + ca C * x + cb C)) mod cp C = 0)"

definition new_point :: "curve \<Rightarrow> int \<Rightarrow> int \<Rightarrow> error + point" where
  "new_point C x y = (if is_point_on_curve C x y then Inr (Point x y) else Inl ValueError)"

definition inv_mod :: "int \<Rightarrow> int \<Rightarrow> int" where
  "inv_mod a m = fst (bezw (nat (a mod m)) (nat m)) mod m"

definition point_neg :: "curve \<Rightarrow> point \<Rightarrow> point" where
  "point_neg C P = Point (px P) ((- py P) mod cp C)"

definition point_double :: "curve \<Rightarrow> point \<Rightarrow> point" where
  "point_double C P =
     (let l = ((3 * px P * px P + ca C) * inv_mod (2 * py P) (cp C)) mod cp C;
          x3 = (l * l - 2 * px P) mod cp C
      in Point x3 ((l * (px P - x3) - py P) mod cp C))"

definition point_add_chord :: "curve \<Rightarrow> point \<Rightarrow> point \<Rightarrow> point" where
  "point_add_chord C P Q =
     (let l = ((py Q - py P) * inv_mod (px Q - px P) (cp C)) mod cp C;
          x3 = (l * l - px P - px Q) mod cp C
      in Point x3 ((l * (px P - x3) - py P) mod cp C))"

definition padd :: "curve \<Rightarrow> point \<Rightarrow> point \<Rightarrow> point" where
  "padd C P Q =
     (if P = IDENTITY then Q
      else if Q = IDENTITY then P
      else if P = point_neg C Q then IDENTITY
      else if P = Q then point_double C P
      else point_add_chord C P Q)"

primrec pmul_nat :: "curve \<Rightarrow> nat \<Rightarrow> point \<Rightarrow> point" where
  "pmul_nat C 0 P = IDENTITY"
| "pmul_nat C (Suc n) P = padd C (pmul_nat C n P) P"

definition smul :: "curve \<Rightarrow> int \<Rightarrow> point \<Rightarrow> point" where
  "smul C k P = pmul_nat C (nat (k mod cq C)) P"

definition is_identity :: "point \<Rightarrow> bool" where
  "is_identity p = (px p = 0 \<and> py p = 0)"

definition point_to_hex :: "point \<Rightarrow> string" where
  "point_to_hex p =
     (if is_identity p then ''00''
      else (if py p mod 2 = 0 then ''02'' else ''03'') @ format_064x (px p))"

text \<open>
  \<open>hex_to_point\<close>: the candidate ordinate is \<open>pow(y_squared, (p + 1) // 4, p)\<close>, negated
  when its parity disagrees with a prefix \<open>02\<close> or \<open>03\<close>; the only checks are those of
  \<open>int(h[2:], 16)\<close> and of the \<open>Point\<close> constructor.
\<close>

definition recover_y :: "curve \<Rightarrow> string \<Rightarrow> int \<Rightarrow> int" where
  "recover_y C pfx x =
     (let y_squared = (py_pow x 3 (cp C) + ca C * x + cb C) mod cp C;
          y = py_pow y_squared (nat ((cp C + 1) div 4)) (cp C)
      in if (pfx = ''02'' \<and> y mod 2 \<noteq> 0) \<or> (pfx = ''03'' \<and> y mod 2 = 0)
         then cp C - y else y)"

definition hex_to_point :: "curve \<Rightarrow> string \<Rightarrow> error + point" where
  "hex_to_point C h =
     (if h = ''00'' then Inr IDENTITY
      else case py_int 16 (drop 2 h) of
             None \<Rightarrow> Inl ValueError
           | Some x \<Rightarrow> new_point C x (recover_y C (take 2 h) x))"

text \<open>The node index: \<open>int(node_id.replace("node", ""))\<close>, ValueError when it does not parse.\<close>

definition node_index :: "string \<Rightarrow> error + int" where
  "node_index n =
     (case py_int 10 (str_remove ''node'' n) of None \<Rightarrow> Inl ValueError | Some i \<Rightarrow> Inr i)"

text \<open>A Python \<open>dict\<close> with string keys: an association list in insertion order.\<close>

type_synonym 'v dict = "(string \<times> 'v) list"

definition dict_get :: "'v dict \<Rightarrow> string \<Rightarrow> error + 'v" where
  "dict_get d k = (case map_of d k of None \<Rightarrow> Inl KeyError | Some v \<Rightarrow> Inr v)"

definition dict_set :: "'v dict \<Rightarrow> string \<Rightarrow> 'v \<Rightarrow> 'v dict" where
  "dict_set d k v = AList.update k v d"

definition dict_values :: "'v dict \<Rightarrow> 'v list" where
  "dict_values d = map snd d"

section \<open>Feldman VSS distributed key generation (\<open>FeldmanDKG\<close>)\<close>

record DKGRound =
  dkg_round_id :: string
  dkg_node_id :: string
  dkg_my_index :: int
  dkg_threshold :: int
  dkg_total_nodes :: int
  my_coefficients :: "int list"
  my_commitments :: "point list"
  shares_for_others :: "int dict"
  received_shares :: "int dict"
  other_commitments :: "point list dict"

definition FeldmanDKG :: "string \<Rightarrow> string \<Rightarrow> int \<Rightarrow> int \<Rightarrow> error + DKGRound" where
  "FeldmanDKG rid nid t n =
     (case node_index nid of
        Inl e \<Rightarrow> Inl e
      | Inr i \<Rightarrow> Inr \<lparr> dkg_round_id = rid, dkg_node_id = nid, dkg_my_index = i,
                       dkg_threshold = t, dkg_total_nodes = n,
                       my_coefficients = [], my_commitments = [],
                       shares_for_others = [], received_shares = [],
                       other_commitments = [] \<rparr>)"

text \<open>
  \<open>generate_polynomial\<close>: the coefficients come from \<open>secrets.randbelow(ORDER)\<close>; the
  model takes the drawn values as an argument.
\<close>

definition generate_polynomial :: "curve \<Rightarrow> int list \<Rightarrow> DKGRound \<Rightarrow> string list \<times> DKGRound" where
  "generate_polynomial C coeffs st =
     (let cs = map (\<lambda>a. smul C a (G C)) coeffs
      in (map point_to_hex cs, st\<lparr>my_coefficients := coeffs, my_commitments := cs\<rparr>))"

text \<open>The loop \<open>for k, coeff in enumerate(coefficients)\<close> that evaluates the polynomial.\<close>

fun poly_eval_loop :: "int \<Rightarrow> int \<Rightarrow> nat \<Rightarrow> int \<Rightarrow> int list \<Rightarrow> int" where
  "poly_eval_loop q x k result [] = result"
| "poly_eval_loop q x k result (coeff # cs) =
     poly_eval_loop q x (Suc k) ((result + coeff * py_pow x k q) mod q) cs"

definition compute_share_for :: "curve \<Rightarrow> DKGRound \<Rightarrow> string \<Rightarrow> error + int" where
  "compute_share_for C st target_node_id =
     (case node_index target_node_id of
        Inl e \<Rightarrow> Inl e
      | Inr target_index \<Rightarrow>
          Inr (poly_eval_loop (ORDER C) target_index 0 0 (my_coefficients st)))"

fun hex_to_points :: "curve \<Rightarrow> string list \<Rightarrow> error + point list" where
  "hex_to_points C [] = Inr []"
| "hex_to_points C (h # hs) =
     (case hex_to_point C h of
        Inl e \<Rightarrow> Inl e
      | Inr P \<Rightarrow> (case hex_to_points C hs of Inl e \<Rightarrow> Inl e | Inr Ps \<Rightarrow> Inr (P # Ps)))"

definition receive_commitment :: "curve \<Rightarrow> DKGRound \<Rightarrow> string \<Rightarrow> string list \<Rightarrow> error + DKGRound" where
  "receive_commitment C st from_node commitments_hex =
     (case hex_to_points C commitments_hex of
        Inl e \<Rightarrow> Inl e
      | Inr Ps \<Rightarrow> Inr (st\<lparr>other_commitments := dict_set (other_commitments st) from_node Ps\<rparr>))"



text \<open>
  \<open>finalize\<close>: \<open>my_commitments[0]\<close> and \<open>commitments[0]\<close> raise IndexError on an empty
  list.
\<close>

fun sum_first_commitments :: "curve \<Rightarrow> point \<Rightarrow> point list list \<Rightarrow> error + point" where
  "sum_first_commitments C pk [] = Inr pk"
| "sum_first_commitments C pk (cs # rest) =
     (case cs of [] \<Rightarrow> Inl IndexError | c0 # _ \<Rightarrow> sum_first_commitments C (padd C pk c0) rest)"

definition finalize :: "curve \<Rightarrow> DKGRound \<Rightarrow> error + (int \<times> point)" where
  "finalize C st =
     (let my_own_share = poly_eval_loop (ORDER C) (dkg_my_index st) 0 0 (my_coefficients st);
          final_share = foldl (\<lambda>acc share. (acc + share) mod ORDER C) my_own_share
                          (dict_values (received_shares st))
      in case my_commitments st of
           [] \<Rightarrow> Inl IndexError
         | c0 # _ \<Rightarrow>
             (case sum_first_commitments C c0 (dict_values (other_commitments st)) of
                Inl e \<Rightarrow> Inl e
              | Inr group_pk \<Rightarrow> Inr (final_share, group_pk)))"

section \<open>Threshold signing (\<open>SigningRound\<close>, \<open>ThresholdSigner\<close>)\<close>

record SigningRound =
  sr_request_id :: string
  sr_message_hash :: bytes
  my_nonce_k :: "int option"
  nonce_commitments :: "point dict"
  partial_signatures :: "int dict"

record ThresholdSigner =
  ts_node_id :: string
  ts_my_index :: int
  my_share :: int
  group_pubkey :: point
  sessions :: "SigningRound dict"

datatype json =
    JNull | JInt int | JString string | JObject "(string \<times> json) list"

definition to_dict :: "SigningRound \<Rightarrow> json" where
  "to_dict s = JObject
     [(''request_id'', JString (sr_request_id s)),
      (''message_hash'', JString (bytes_hex (sr_message_hash s))),
      (''my_nonce_k'', (case my_nonce_k s of None \<Rightarrow> JNull | Some k \<Rightarrow> JString (format_x k))),
      (''nonce_commitments'',
         JObject (map (\<lambda>(node_id, pt). (node_id, JString (point_to_hex pt))) (nonce_commitments s))),
      (''partial_signatures'',
         JObject (map (\<lambda>(node_id, sig). (node_id, JString (format_x sig))) (partial_signatures s)))]"

text \<open>\<open>to_json\<close>: the document that \<open>json.dumps\<close> writes, as a tree.\<close>

definition to_json :: "ThresholdSigner \<Rightarrow> json" where
  "to_json signer = JObject
     [(''node_id'', JString (ts_node_id signer)),
      (''my_index'', JInt (ts_my_index signer)),
      (''my_share'', JString (format_x (my_share signer))),
      (''group_pubkey'', JString (point_to_hex (group_pubkey signer))),
      (''sessions'', JObject (map (\<lambda>(req_id, session). (req_id, to_dict session)) (sessions signer)))]"

definition new_signer :: "string \<Rightarrow> int \<Rightarrow> point \<Rightarrow> error + ThresholdSigner" where
  "new_signer nid share pk =
     (case node_index nid of
        Inl e \<Rightarrow> Inl e
      | Inr i \<Rightarrow> Inr \<lparr> ts_node_id = nid, ts_my_index = i, my_share = share,
                       group_pubkey = pk, sessions = [] \<rparr>)"

definition create_nonce_commitment_from_k ::
  "curve \<Rightarrow> ThresholdSigner \<Rightarrow> string \<Rightarrow> bytes \<Rightarrow> int \<Rightarrow> string \<Rightarrow> error + (string \<times> ThresholdSigner)" where
  "create_nonce_commitment_from_k C signer request_id message_hash k R_hex =
     (case hex_to_point C R_hex of
        Inl e \<Rightarrow> Inl e
      | Inr R_i \<Rightarrow>
          Inr (R_hex,
               signer\<lparr>sessions := dict_set (sessions signer) request_id
                 \<lparr> sr_request_id = request_id, sr_message_hash = message_hash,
                   my_nonce_k = Some k, nonce_commitments = [(ts_node_id signer, R_i)],
                   partial_signatures = [] \<rparr>\<rparr>))"

definition receive_nonce_commitment ::
  "curve \<Rightarrow> ThresholdSigner \<Rightarrow> string \<Rightarrow> string \<Rightarrow> string \<Rightarrow> error + ThresholdSigner" where
  "receive_nonce_commitment C signer request_id from_node R_hex =
     (case map_of (sessions signer) request_id of
        None \<Rightarrow> Inl KeyError
      | Some session \<Rightarrow>
          (case hex_to_point C R_hex of
             Inl e \<Rightarrow> Inl e
           | Inr R \<Rightarrow>
               Inr (signer\<lparr>sessions := dict_set (sessions signer) request_id
                      (session\<lparr>nonce_commitments :=
                                 dict_set (nonce_commitments session) from_node R\<rparr>)\<rparr>)))"

text \<open>The loop \<open>for node_id in participants: R = R + nonce_commitments[node_id]\<close>.\<close>

fun aggregate_nonce :: "curve \<Rightarrow> point dict \<Rightarrow> point \<Rightarrow> string list \<Rightarrow> error + point" where
  "aggregate_nonce C ncs R [] = Inr R"
| "aggregate_nonce C ncs R (node_id # rest) =
     (case map_of ncs node_id of
        None \<Rightarrow> Inl KeyError
      | Some R_j \<Rightarrow> aggregate_nonce C ncs (padd C R R_j) rest)"

fun participant_indices :: "string list \<Rightarrow> error + int list" where
  "participant_indices [] = Inr []"
| "participant_indices (n # ns) =
     (case node_index n of
        Inl e \<Rightarrow> Inl e
      | Inr j \<Rightarrow> (case participant_indices ns of Inl e \<Rightarrow> Inl e | Inr js \<Rightarrow> Inr (j # js)))"

text \<open>The Lagrange loop: \<open>num\<close> and \<open>den\<close> over the indices other than the node's own.\<close>

fun lagrange_loop :: "int \<Rightarrow> int \<Rightarrow> int \<times> int \<Rightarrow> int list \<Rightarrow> int \<times> int" where
  "lagrange_loop q i (num, den) [] = (num, den)"
| "lagrange_loop q i (num, den) (j # js) =
     (if j \<noteq> i then lagrange_loop q i ((num * (- j)) mod q, (den * (i - j)) mod q) js
      else lagrange_loop q i (num, den) js)"

text \<open>
  The challenge \<open>e\<close>: SHA-256 of the ASCII hex of \<open>R\<close> and of the public key followed
  by the message hash; \<open>hashlib.sha256\<close> is a parameter of the model.
\<close>

definition challenge :: "curve \<Rightarrow> (bytes \<Rightarrow> bytes) \<Rightarrow> string \<Rightarrow> point \<Rightarrow> bytes \<Rightarrow> int" where
  "challenge C sha256 R_hex pubkey message_hash =
     int_from_bytes (sha256 (R_hex @ point_to_hex pubkey @ message_hash)) mod ORDER C"

definition compute_partial_signature ::
  "curve \<Rightarrow> (bytes \<Rightarrow> bytes) \<Rightarrow> ThresholdSigner \<Rightarrow> string \<Rightarrow> string list
     \<Rightarrow> error + (string \<times> ThresholdSigner)" where
  "compute_partial_signature C sha256 signer request_id participants =
     (case map_of (sessions signer) request_id of
        None \<Rightarrow> Inl KeyError
      | Some session \<Rightarrow>
     (case aggregate_nonce C (nonce_commitments session) IDENTITY participants of
        Inl e \<Rightarrow> Inl e
      | Inr R \<Rightarrow>
     (let e = challenge C sha256 (point_to_hex R) (group_pubkey signer) (sr_message_hash session)
      in case participant_indices participants of
        Inl err \<Rightarrow> Inl err
      | Inr idxs \<Rightarrow>
     (let (num, den) = lagrange_loop (ORDER C) (ts_my_index signer) (1, 1) idxs
      in case mod_inverse den (ORDER C) of
        Inl err \<Rightarrow> Inl err
      | Inr inv_den \<Rightarrow>
     (let lambda_i = (num * inv_den) mod ORDER C
      in case my_nonce_k session of
        None \<Rightarrow> Inl TypeError
      | Some k \<Rightarrow>
          (let s_i = (k + e * lambda_i * my_share signer) mod ORDER C;
               session' = session\<lparr> my_nonce_k := None,
                            partial_signatures :=
                              dict_set (partial_signatures session) (ts_node_id signer) s_i \<rparr>
           in Inr (format_064x s_i,
                   signer\<lparr>sessions := dict_set (sessions signer) request_id session'\<rparr>)))))))"

definition combine_signatures ::
  "curve \<Rightarrow> int dict \<Rightarrow> point dict \<Rightarrow> string list \<Rightarrow> error + (string \<times> string)" where
  "combine_signatures C partials ncs participants =
     (case aggregate_nonce C ncs IDENTITY participants of
        Inl e \<Rightarrow> Inl e
      | Inr R \<Rightarrow>
          (let s = sum_list (dict_values partials) mod ORDER C
           in Inr (point_to_hex R, format_064x s)))"

definition verify_signature ::
  "curve \<Rightarrow> (bytes \<Rightarrow> bytes) \<Rightarrow> string \<Rightarrow> string \<Rightarrow> point \<Rightarrow> bytes \<Rightarrow> error + bool" where
  "verify_signature C sha256 R_hex s_hex pubkey message_hash =
     (case hex_to_point C R_hex of
        Inl err \<Rightarrow> Inl err
      | Inr R \<Rightarrow>
          (case py_int 16 s_hex of
             None \<Rightarrow> Inl ValueError
           | Some s \<Rightarrow>
               (let e = challenge C sha256 R_hex pubkey message_hash
                in Inr (smul C s (G C) = padd C R (smul C e pubkey)))))"

section \<open>The node-state store (\<open>state.py\<close>)\<close>

record DKGState =
  st_round_id :: string
  phase :: string
  st_threshold :: int
  st_total_nodes :: int
  my_share_stored :: bool
  group_pubkey_hex :: string

record derivation_info =
  di_counter :: int
  di_R_hex :: string
  di_message_hash_hex :: string

record SigningState =
  used_nonces :: "string \<rightharpoonup> string"
  nonce_derivations :: "string \<rightharpoonup> derivation_info"

record NodeState =
  ns_node_id :: string
  initialized :: bool
  identity_key_posted :: bool
  dkg :: DKGState
  signing :: SigningState

text \<open>\<open>NodeState(node_id=node_id)\<close> with the defaults of the dataclasses.\<close>

definition initial_state :: "string \<Rightarrow> NodeState" where
  "initial_state nid =
     \<lparr> ns_node_id = nid, initialized = False, identity_key_posted = False,
       dkg = \<lparr> st_round_id = [], phase = ''none'', st_threshold = 0, st_total_nodes = 0,
               my_share_stored = False, group_pubkey_hex = [] \<rparr>,
       signing = \<lparr> used_nonces = Map.empty, nonce_derivations = Map.empty \<rparr> \<rparr>"

text \<open>
  \<open>RigidState.__init__\<close> writes the initial document when \<open>state.json\<close> does not exist;
  the file is \<open>None\<close> while it is missing.
\<close>

definition RigidState :: "NodeState option \<Rightarrow> string \<Rightarrow> NodeState" where
  "RigidState file nid = (case file of None \<Rightarrow> initial_state nid | Some s \<Rightarrow> s)"

text \<open>
  \<open>update(updater)\<close> loads the document, applies the updater and saves the result. The
  updaters are the closures \<open>_update\<close> of the repository: the two of \<open>state.py\<close> and
  those of \<open>init\<close>, \<open>dkg-start\<close>, \<open>dkg-distribute\<close> and \<open>dkg-finalize\<close> in \<open>main.py\<close>.
\<close>

datatype updater =
    RecordNonceUse string string
  | RecordNonceDerivation string int string string
  | InitDone
  | DkgStarted string int int
  | DkgDistributed
  | DkgFinalized string

fun update :: "updater \<Rightarrow> NodeState \<Rightarrow> NodeState" where
  "update (RecordNonceUse request_id commitment) s =
     s\<lparr>signing := (signing s)\<lparr>used_nonces := (used_nonces (signing s))(request_id \<mapsto> commitment)\<rparr>\<rparr>"
| "update (RecordNonceDerivation request_id counter R_hex message_hash_hex) s =
     s\<lparr>signing := (signing s)
        \<lparr>used_nonces := (used_nonces (signing s))(request_id \<mapsto> R_hex),
         nonce_derivations := (nonce_derivations (signing s))(request_id \<mapsto>
            \<lparr> di_counter = counter, di_R_hex = R_hex, di_message_hash_hex = message_hash_hex \<rparr>)\<rparr>\<rparr>"
| "update InitDone s = s\<lparr>initialized := True, identity_key_posted := True\<rparr>"
| "update (DkgStarted round_id t n) s =
     s\<lparr>dkg := (dkg s)\<lparr>st_round_id := round_id, phase := ''committed'',
                        st_threshold := t, st_total_nodes := n\<rparr>\<rparr>"
| "update DkgDistributed s = s\<lparr>dkg := (dkg s)\<lparr>phase := ''distributed''\<rparr>\<rparr>"
| "update (DkgFinalized pk_hex) s =
     s\<lparr>dkg := (dkg s)\<lparr>phase := ''finalized'', my_share_stored := True,
                        group_pubkey_hex := pk_hex\<rparr>\<rparr>"

definition check_nonce_unused :: "NodeState \<Rightarrow> string \<Rightarrow> bool" where
  "check_nonce_unused s request_id = (request_id \<notin> dom (used_nonces (signing s)))"

definition record_nonce_use :: "NodeState \<Rightarrow> string \<Rightarrow> string \<Rightarrow> NodeState" where
  "record_nonce_use s request_id commitment = update (RecordNonceUse request_id commitment) s"

definition record_nonce_derivation ::
  "NodeState \<Rightarrow> string \<Rightarrow> int \<Rightarrow> string \<Rightarrow> string \<Rightarrow> NodeState" where
  "record_nonce_derivation s request_id counter R_hex message_hash_hex =
     update (RecordNonceDerivation request_id counter R_hex message_hash_hex) s"

text \<open>The documents the store can hold after any sequence of updates of a fresh file.\<close>

definition run_updates :: "string \<Rightarrow> updater list \<Rightarrow> NodeState" where
  "run_updates nid us = foldl (\<lambda>s u. update u s) (RigidState None nid) us"

section \<open>The token (\<open>hardware.py\<close>)\<close>

text \<open>
  The PKCS#11 token holds objects with a label and a value; labels need not be unique.
  \<open>session.get_key(label=l)\<close> returns the only object labelled \<open>l\<close> and raises NoSuchKey
  or MultipleObjectsReturned otherwise.
\<close>

type_synonym hsm = "(string \<times> bytes) list"

definition get_key :: "hsm \<Rightarrow> string \<Rightarrow> error + bytes" where
  "get_key hsm label =
     (case filter (\<lambda>ob. fst ob = label) hsm of
        [] \<Rightarrow> Inl NoSuchKey
      | [ob] \<Rightarrow> Inr (snd ob)
      | _ \<Rightarrow> Inl MultipleObjectsReturned)"

text \<open>\<open>key.destroy()\<close> on the key that \<open>get_key\<close> returned for the label.\<close>

definition destroy :: "hsm \<Rightarrow> string \<Rightarrow> hsm" where
  "destroy hsm label = filter (\<lambda>ob. fst ob \<noteq> label) hsm"

definition create_object :: "hsm \<Rightarrow> string \<Rightarrow> bytes \<Rightarrow> hsm" where
  "create_object hsm label v = hsm @ [(label, v)]"

definition is_production_mode :: "string \<Rightarrow> bool" where
  "is_production_mode mode = (mode = ''production'')"


definition get_dkg_share :: "string \<Rightarrow> hsm \<Rightarrow> string \<Rightarrow> error + bytes" where
  "get_dkg_share mode hsm round_id =
     (if is_production_mode mode then Inl SecurityError
      else get_key hsm (''DKG_SHARE_'' @ round_id))"

definition has_nonce_commitment :: "hsm \<Rightarrow> string \<Rightarrow> bool" where
  "has_nonce_commitment hsm request_id =
     (case get_key hsm (''NONCE_'' @ request_id) of Inl e \<Rightarrow> False | Inr v \<Rightarrow> True)"

definition store_nonce_commitment :: "hsm \<Rightarrow> string \<Rightarrow> string \<Rightarrow> error + hsm" where
  "store_nonce_commitment hsm request_id commitment_hex =
     (if has_nonce_commitment hsm request_id then Inl SecurityError
      else Inr (create_object hsm (''NONCE_'' @ request_id) commitment_hex))"

definition NONCE_MASTER_LABEL :: string where
  "NONCE_MASTER_LABEL = ''NONCE_MASTER_SEED''"

definition NONCE_COUNTER_LABEL :: string where
  "NONCE_COUNTER_LABEL = ''NONCE_COUNTER''"

definition CURVE_ORDER :: int where
  "CURVE_ORDER = 0xFFFFFFFFFFFFFFFFFFFFFFFFFFFFFFFEBAAEDCE6AF48A03BBFD25E8CD0364141"

text \<open>\<open>n.to_bytes(len, 'big')\<close>: OverflowError for a negative or too large value.\<close>

fun be_bytes :: "nat \<Rightarrow> nat \<Rightarrow> bytes" where
  "be_bytes 0 n = []"
| "be_bytes (Suc len) n = be_bytes len (n div 256) @ [char_of (n mod 256)]"

definition to_bytes :: "nat \<Rightarrow> int \<Rightarrow> error + bytes" where
  "to_bytes len n =
     (if n < 0 \<or> 256 ^ len \<le> n then Inl OverflowError else Inr (be_bytes len (nat n)))"

definition has_nonce_master_seed :: "hsm \<Rightarrow> bool" where
  "has_nonce_master_seed hsm =
     (case get_key hsm NONCE_MASTER_LABEL of Inl e \<Rightarrow> False | Inr v \<Rightarrow> True)"


definition get_nonce_master_seed :: "string \<Rightarrow> hsm \<Rightarrow> error + bytes" where
  "get_nonce_master_seed mode hsm =
     (if is_production_mode mode then Inl SecurityError else get_key hsm NONCE_MASTER_LABEL)"

definition get_nonce_counter :: "string \<Rightarrow> hsm \<Rightarrow> error + int" where
  "get_nonce_counter mode hsm =
     (if is_production_mode mode then Inl SecurityError
      else case get_key hsm NONCE_COUNTER_LABEL of
             Inl e \<Rightarrow> Inl e
           | Inr v \<Rightarrow> Inr (int_from_bytes v))"

text \<open>
  \<open>_increment_nonce_counter\<close>: the old counter object is destroyed before the new value
  is converted to eight bytes, so an overflow leaves the token without a counter.
\<close>

definition increment_nonce_counter :: "string \<Rightarrow> hsm \<Rightarrow> hsm \<times> (error + int)" where
  "increment_nonce_counter mode hsm =
     (if is_production_mode mode then (hsm, Inl SecurityError)
      else case get_key hsm NONCE_COUNTER_LABEL of
             Inl e \<Rightarrow> (hsm, Inl e)
           | Inr v \<Rightarrow>
               (let current_value = int_from_bytes v;
                    new_value = current_value + 1;
                    hsm1 = destroy hsm NONCE_COUNTER_LABEL
                in case to_bytes 8 new_value of
                     Inl e \<Rightarrow> (hsm1, Inl e)
                   | Inr b \<Rightarrow> (create_object hsm1 NONCE_COUNTER_LABEL b, Inr new_value)))"

record NonceDerivation =
  nd_counter :: int
  nd_k :: int
  nd_R_hex :: string
  nd_request_id :: string
  nd_message_hash_hex :: string

text \<open>\<open>str(n)\<close> for an integer and the JSON text of the audit record.\<close>

fun dec_of_nat :: "nat \<Rightarrow> string" where
  "dec_of_nat n =
     (if n < 10 then [hex_digit n] else dec_of_nat (n div 10) @ [hex_digit (n mod 10)])"

declare dec_of_nat.simps [simp del]

definition str_of_int :: "int \<Rightarrow> string" where
  "str_of_int v = (if v < 0 then CHR ''-'' # dec_of_nat (nat (- v)) else dec_of_nat (nat v))"

definition json_escape :: "char \<Rightarrow> string" where
  "json_escape c =
     (if c = CHR 0x22 then [CHR 0x5C, CHR 0x22]
      else if c = CHR 0x5C then [CHR 0x5C, CHR 0x5C]
      else if c = CHR 0x0A then [CHR 0x5C, CHR ''n'']
      else if c = CHR 0x0D then [CHR 0x5C, CHR ''r'']
      else if c = CHR 0x09 then [CHR 0x5C, CHR ''t'']
      else if c = CHR 0x08 then [CHR 0x5C, CHR ''b'']
      else if c = CHR 0x0C then [CHR 0x5C, CHR ''f'']
      else if (of_char c :: nat) < 32 \<or> 127 < (of_char c :: nat)
        then [CHR 0x5C, CHR ''u'', CHR ''0'', CHR ''0'',
              hex_digit (of_char c div 16), hex_digit (of_char c mod 16)]
      else [c])"

definition json_string :: "string \<Rightarrow> string" where
  "json_string s = [CHR 0x22] @ concat (map json_escape s) @ [CHR 0x22]"

definition derivation_record :: "int \<Rightarrow> string \<Rightarrow> string \<Rightarrow> string \<Rightarrow> bytes" where
  "derivation_record counter request_id R_hex message_hash_hex =
     ''{'' @ json_string ''counter'' @ '': '' @ str_of_int counter @ '', ''
       @ json_string ''request_id'' @ '': '' @ json_string request_id @ '', ''
       @ json_string ''R_hex'' @ '': '' @ json_string R_hex @ '', ''
       @ json_string ''message_hash_hex'' @ '': '' @ json_string message_hash_hex @ ''}''"

definition store_derivation_record :: "hsm \<Rightarrow> int \<Rightarrow> string \<Rightarrow> string \<Rightarrow> string \<Rightarrow> hsm" where
  "store_derivation_record hsm counter request_id R_hex message_hash_hex =
     create_object hsm (''NONCE_DERIV_'' @ str_of_int counter)
       (derivation_record counter request_id R_hex message_hash_hex)"

text \<open>
  \<open>derive_nonce\<close>; \<open>hmac.new(key, msg, hashlib.sha512).digest()\<close> is a parameter of the
  model. The function returns the token as the call leaves it, also when it raises.
\<close>

definition derivation_input :: "bytes \<Rightarrow> string \<Rightarrow> bytes \<Rightarrow> bytes" where
  "derivation_input counter_bytes request_id message_hash =
     CHR 0x00 # counter_bytes @ request_id @ message_hash"

definition derive_nonce ::
  "curve \<Rightarrow> (bytes \<Rightarrow> bytes \<Rightarrow> bytes) \<Rightarrow> string \<Rightarrow> hsm \<Rightarrow> string \<Rightarrow> bytes
     \<Rightarrow> hsm \<times> (error + NonceDerivation)" where
  "derive_nonce C hmac_sha512 mode hsm request_id message_hash =
     (if \<not> has_nonce_master_seed hsm then (hsm, Inl SecurityError)
      else case increment_nonce_counter mode hsm of
        (hsm1, Inl e) \<Rightarrow> (hsm1, Inl e)
      | (hsm1, Inr counter) \<Rightarrow>
     (case get_nonce_master_seed mode hsm1 of
        Inl e \<Rightarrow> (hsm1, Inl e)
      | Inr master_seed \<Rightarrow>
     (case to_bytes 8 counter of
        Inl e \<Rightarrow> (hsm1, Inl e)
      | Inr counter_bytes \<Rightarrow>
     (let derived = hmac_sha512 master_seed (derivation_input counter_bytes request_id message_hash);
          k = int_from_bytes (take 32 derived) mod CURVE_ORDER
      in if k = 0 then (hsm1, Inl SecurityError)
         else
           (let R_hex = point_to_hex (smul C k (G C));
                hsm2 = store_derivation_record hsm1 counter request_id R_hex (bytes_hex message_hash)
            in (hsm2, Inr \<lparr> nd_counter = counter, nd_k = k, nd_R_hex = R_hex,
                             nd_request_id = request_id,
                             nd_message_hash_hex = bytes_hex message_hash \<rparr>))))))"

section \<open>The sign-approve ceremony (\<open>main.py\<close>)\<close>

text \<open>\<open>bytes.fromhex(s)\<close>: pairs of hex digits, ASCII whitespace between the pairs.\<close>

definition is_ascii_space :: "char \<Rightarrow> bool" where
  "is_ascii_space c = (c \<in> set [CHR 0x09, CHR 0x0A, CHR 0x0B, CHR 0x0C, CHR 0x0D, CHR 0x20])"

fun bytes_fromhex :: "string \<Rightarrow> error + bytes" where
  "bytes_fromhex [] = Inr []"
| "bytes_fromhex (c # cs) =
     (if is_ascii_space c then bytes_fromhex cs
      else case cs of
             [] \<Rightarrow> Inl ValueError
           | d # ds \<Rightarrow>
               (case (digit_value c, digit_value d) of
                  (Some a, Some b) \<Rightarrow>
                    (if a < 16 \<and> b < 16
                     then (case bytes_fromhex ds of
                             Inl e \<Rightarrow> Inl e
                           | Inr r \<Rightarrow> Inr (char_of (a * 16 + b) # r))
                     else Inl ValueError)
                | _ \<Rightarrow> Inl ValueError))"

text \<open>
  The bulletin board as the ceremony reads it. A zero-length file reads as false, like a
  missing one, so the maps hold the non-empty files only.
  \<^item> A request file is \<open>RequestDoc m\<close> when \<open>SigningRequest(**json.loads(data))\<close>
    succeeds, with \<open>m\<close> its \<open>message_hash\<close> if that is a string, and \<open>RequestUnusable\<close>
    when the constructor raises.
  \<^item> A commitment file is \<open>CommitmentDoc r\<close> when it is a JSON object whose
    \<open>R_commitment\<close> is the string \<open>r\<close> or is absent (\<open>None\<close>, read as \<open>'unknown'\<close>), and
    \<open>CommitmentBad\<close> when the recovery code raises on it.
\<close>

datatype request_file = RequestDoc "string option" | RequestUnusable

datatype commitment_file = CommitmentDoc "string option" | CommitmentBad

record world =
  state_file :: "NodeState option"
  token :: hsm
  board_requests :: "string \<rightharpoonup> request_file"
  board_commitments :: "string \<times> string \<rightharpoonup> commitment_file"
  signer_files :: "string \<rightharpoonup> json"

datatype outcome =
    DkgNotComplete
  | NonceUsedLocal
  | NonceUsedHSM
  | CommitmentOnBoard
  | RequestNotFound
  | Rejected
  | ProductionModeRefused
  | DerivationFailed error
  | Crashed error
  | Approved string

text \<open>
  Layer 3 found a commitment: record it in the token and in the local state; every
  exception of this block is caught.
\<close>

definition recover_commitment :: "string \<Rightarrow> world \<Rightarrow> string \<Rightarrow> commitment_file \<Rightarrow> world" where
  "recover_commitment NODE_ID w request_id existing =
     (case existing of
        CommitmentBad \<Rightarrow> w
      | CommitmentDoc r \<Rightarrow>
          (let existing_R = (case r of None \<Rightarrow> ''unknown'' | Some v \<Rightarrow> v)
           in case store_nonce_commitment (token w) request_id existing_R of
                Inl e \<Rightarrow> w
              | Inr hsm1 \<Rightarrow>
                  w\<lparr> token := hsm1,
                     state_file := Some (record_nonce_use (RigidState (state_file w) NODE_ID)
                                           request_id existing_R) \<rparr>))"

text \<open>
  The steps after a successful derivation: build the signer session, store the backup
  record in the token (its exceptions are caught), record the derivation locally, post
  the commitment and write the signer file.
\<close>

definition build_signer ::
  "curve \<Rightarrow> string \<Rightarrow> int \<Rightarrow> string \<Rightarrow> string \<Rightarrow> bytes \<Rightarrow> int \<Rightarrow> string
     \<Rightarrow> error + ThresholdSigner" where
  "build_signer C NODE_ID share pk_hex request_id message_hash_bytes k R_hex =
     (case hex_to_point C pk_hex of
        Inl e \<Rightarrow> Inl e
      | Inr pk \<Rightarrow>
     (case new_signer NODE_ID share pk of
        Inl e \<Rightarrow> Inl e
      | Inr signer0 \<Rightarrow>
     (case create_nonce_commitment_from_k C signer0 request_id message_hash_bytes k R_hex of
        Inl e \<Rightarrow> Inl e
      | Inr (r, signer) \<Rightarrow> Inr signer)))"

definition approve_after_derivation ::
  "curve \<Rightarrow> string \<Rightarrow> world \<Rightarrow> NodeState \<Rightarrow> string \<Rightarrow> bytes \<Rightarrow> int \<Rightarrow> NonceDerivation
     \<Rightarrow> world \<times> outcome" where
  "approve_after_derivation C NODE_ID w current request_id message_hash_bytes share derivation =
     (let R_hex = nd_R_hex derivation
      in case build_signer C NODE_ID share (group_pubkey_hex (dkg current)) request_id
                message_hash_bytes (nd_k derivation) (nd_R_hex derivation) of
        Inl e \<Rightarrow> (w, Crashed e)
      | Inr signer \<Rightarrow>
          (let hsm2 = (case store_nonce_commitment (token w) request_id R_hex of
                         Inl e \<Rightarrow> token w
                       | Inr h \<Rightarrow> h);
               st = record_nonce_derivation (RigidState (state_file w) NODE_ID) request_id
                      (nd_counter derivation) (nd_R_hex derivation) (nd_message_hash_hex derivation)
           in (w\<lparr> token := hsm2,
                   state_file := Some st,
                   board_commitments :=
                     (board_commitments w)((request_id, NODE_ID) \<mapsto> CommitmentDoc (Some R_hex)),
                   signer_files := (signer_files w)(request_id \<mapsto> to_json signer) \<rparr>,
               Approved R_hex)))"

text \<open>
  \<open>sign_approve\<close>: \<open>confirm\<close> is the operator's answer to \<open>click.confirm\<close>, \<open>mode\<close> the
  value of \<open>HSM_MODE\<close>. The result is the world as the command leaves it and how it ended.
\<close>

definition sign_approve ::
  "curve \<Rightarrow> (bytes \<Rightarrow> bytes \<Rightarrow> bytes) \<Rightarrow> string \<Rightarrow> string \<Rightarrow> world \<Rightarrow> string \<Rightarrow> bool
     \<Rightarrow> world \<times> outcome" where
  "sign_approve C hmac_sha512 mode NODE_ID w_in request_id confirm =
     (let current = RigidState (state_file w_in) NODE_ID;
          w = w_in\<lparr>state_file := Some current\<rparr>
      in if \<not> my_share_stored (dkg current) then (w, DkgNotComplete)
         else if \<not> check_nonce_unused current request_id then (w, NonceUsedLocal)
         else if has_nonce_commitment (token w) request_id then (w, NonceUsedHSM)
         else case board_commitments w (request_id, NODE_ID) of
           Some existing \<Rightarrow> (recover_commitment NODE_ID w request_id existing, CommitmentOnBoard)
         | None \<Rightarrow>
        (case board_requests w request_id of
           None \<Rightarrow> (w, RequestNotFound)
         | Some RequestUnusable \<Rightarrow> (w, Crashed TypeError)
         | Some (RequestDoc m) \<Rightarrow>
             if \<not> confirm then (w, Rejected)
             else if is_production_mode mode then (w, ProductionModeRefused)
             else
        (case get_dkg_share mode (token w) (st_round_id (dkg current)) of
           Inl e \<Rightarrow> (w, Crashed e)
         | Inr share_bytes \<Rightarrow>
        (case (case m of None \<Rightarrow> Inl TypeError | Some h \<Rightarrow> bytes_fromhex h) of
           Inl e \<Rightarrow> (w, Crashed e)
         | Inr message_hash_bytes \<Rightarrow>
        (case derive_nonce C hmac_sha512 mode (token w) request_id message_hash_bytes of
           (hsm1, Inl e) \<Rightarrow> (w\<lparr>token := hsm1\<rparr>, DerivationFailed e)
         | (hsm1, Inr derivation) \<Rightarrow>
             approve_after_derivation C NODE_ID (w\<lparr>token := hsm1\<rparr>) current request_id
               message_hash_bytes (int_from_bytes share_bytes) derivation)))))"

section \<open>Inputs and predicates of the properties\<close>












definition demo_signer :: ThresholdSigner where
  "demo_signer = \<lparr> ts_node_id = ''node1'', ts_my_index = 1, my_share = 5,
     group_pubkey = IDENTITY,
     sessions = [(''tx_1'', \<lparr> sr_request_id = ''tx_1'', sr_message_hash = [CHR 0x2c, CHR 0xf2],
        my_nonce_k = Some 7, nonce_commitments = [(''node1'', IDENTITY)],
        partial_signatures = [] \<rparr>)] \<rparr>"

definition demo_commitments :: "point dict" where
  "demo_commitments =
     [(''node1'', G secp256k1), (''node2'', point_neg secp256k1 (G secp256k1))]"



section \<open>The curve layer: deserialization and serialization\<close>































section \<open>The node-state store\<close>

lemma update_preserves_subset:
  "dom (nonce_derivations (signing s)) \<subseteq> dom (used_nonces (signing s)) \<Longrightarrow>
   dom (nonce_derivations (signing (update u s))) \<subseteq> dom (used_nonces (signing (update u s)))"
  by (cases u) auto

lemma run_updates_snoc: "run_updates nid (us @ [u]) = update u (run_updates nid us)"
  by (simp add: run_updates_def)

lemma run_updates_subset:
  "dom (nonce_derivations (signing (run_updates nid us)))
     \<subseteq> dom (used_nonces (signing (run_updates nid us)))"
proof (induction us rule: rev_induct)
  case Nil
  then show ?case by (simp add: run_updates_def RigidState_def initial_state_def)
next
  case (snoc u us)
  then show ?case by (simp only: run_updates_snoc update_preserves_subset)
qed

lemma initial_maps_empty:
  "used_nonces (signing (RigidState None nid)) = Map.empty"
  "nonce_derivations (signing (RigidState None nid)) = Map.empty"
  by (simp_all add: RigidState_def initial_state_def)

lemma record_nonce_derivation_doms:
  "dom (used_nonces (signing (record_nonce_derivation s rid c R m)))
       = insert rid (dom (used_nonces (signing s)))"
  "dom (nonce_derivations (signing (record_nonce_derivation s rid c R m)))
       = insert rid (dom (nonce_derivations (signing s)))"
  by (simp_all add: record_nonce_derivation_def)

lemma record_nonce_use_doms:
  "dom (used_nonces (signing (record_nonce_use s rid R)))
       = insert rid (dom (used_nonces (signing s)))"
  "nonce_derivations (signing (record_nonce_use s rid R)) = nonce_derivations (signing s)"
  by (simp_all add: record_nonce_use_def)

lemma derivation_blocks_layer1:
  "r \<in> dom (nonce_derivations (signing (run_updates nid us))) \<Longrightarrow>
   \<not> check_nonce_unused (run_updates nid us) r"
  using run_updates_subset[of nid us] by (auto simp: check_nonce_unused_def)

text \<open>
  Claim C10. The fresh document has both maps empty; \<open>record_nonce_derivation\<close> writes
  the request id into both maps and \<open>record_nonce_use\<close> into \<open>used_nonces\<close> only; every
  update of the store preserves that the keys of \<open>nonce_derivations\<close> are keys of
  \<open>used_nonces\<close>; so after any sequence of updates of a fresh document the inclusion holds
  and every request id with derivation metadata fails the layer-1 check.
\<close>

theorem nonce_derivations_within_used_nonces:
  "used_nonces (signing (RigidState None nid)) = Map.empty
   \<and> nonce_derivations (signing (RigidState None nid)) = Map.empty
   \<and> dom (used_nonces (signing (record_nonce_derivation s rid c R m)))
       = insert rid (dom (used_nonces (signing s)))
   \<and> dom (nonce_derivations (signing (record_nonce_derivation s rid c R m)))
       = insert rid (dom (nonce_derivations (signing s)))
   \<and> dom (used_nonces (signing (record_nonce_use s rid R)))
       = insert rid (dom (used_nonces (signing s)))
   \<and> nonce_derivations (signing (record_nonce_use s rid R)) = nonce_derivations (signing s)
   \<and> (dom (nonce_derivations (signing s)) \<subseteq> dom (used_nonces (signing s)) \<longrightarrow>
        dom (nonce_derivations (signing (update u s))) \<subseteq> dom (used_nonces (signing (update u s))))
   \<and> dom (nonce_derivations (signing (run_updates nid us)))
        \<subseteq> dom (used_nonces (signing (run_updates nid us)))
   \<and> (\<forall>r \<in> dom (nonce_derivations (signing (run_updates nid us))).
         \<not> check_nonce_unused (run_updates nid us) r)"
  by (intro conjI ballI impI initial_maps_empty record_nonce_derivation_doms
      record_nonce_use_doms update_preserves_subset run_updates_subset
      derivation_blocks_layer1)

text \<open>
  A run of three updates: the derivation of \<open>tx_1\<close> is recorded and the layer-1 check
  refuses \<open>tx_1\<close>.
\<close>

theorem nonce_derivations_within_used_nonces_witness:
  "''tx_1'' \<in> dom (nonce_derivations (signing (run_updates ''node1''
      [InitDone, RecordNonceDerivation ''tx_1'' 1 ''02ab'' ''00'', RecordNonceUse ''tx_2'' ''03cd''])))
   \<and> \<not> check_nonce_unused (run_updates ''node1''
      [InitDone, RecordNonceDerivation ''tx_1'' 1 ''02ab'' ''00'', RecordNonceUse ''tx_2'' ''03cd''])
      ''tx_1''"
proof -
  let ?us = "[InitDone, RecordNonceDerivation ''tx_1'' 1 ''02ab'' ''00'', RecordNonceUse ''tx_2'' ''03cd'']"
  have d: "''tx_1'' \<in> dom (nonce_derivations (signing (run_updates ''node1'' ?us)))"
    by (simp add: run_updates_def RigidState_def initial_state_def)
  have "\<forall>r \<in> dom (nonce_derivations (signing (run_updates ''node1'' ?us))).
         \<not> check_nonce_unused (run_updates ''node1'' ?us) r"
    by (rule nonce_derivations_within_used_nonces[of "''node1''" s rid c R m u ?us,
          THEN conjunct2, THEN conjunct2, THEN conjunct2, THEN conjunct2, THEN conjunct2,
          THEN conjunct2, THEN conjunct2, THEN conjunct2])
  with d show ?thesis by (intro conjI) (assumption, rule bspec)
qed

section \<open>Partial signatures\<close>

lemma map_of_dict_set: "map_of (dict_set d k v) = (map_of d)(k \<mapsto> v)"
  by (simp add: dict_set_def update_conv')

text \<open>
  Claim C4. When \<open>compute_partial_signature\<close> returns, the session of the request in
  the signer it leaves behind holds no nonce: \<open>my_nonce_k\<close> is \<open>None\<close>.
\<close>

theorem compute_partial_signature_wipes_nonce:
  assumes "compute_partial_signature C sha256 signer request_id participants = Inr (s_hex, signer')"
  shows "\<exists>session'. map_of (sessions signer') request_id = Some session'
                    \<and> my_nonce_k session' = None"
  using assms
  by (auto simp: compute_partial_signature_def Let_def map_of_dict_set
      split: option.splits sum.splits prod.splits)

lemma node_index_node1: "node_index ''node1'' = Inr 1"
  by (simp add: node_index_def py_int_def py_int_body_def digit_value_def is_space_def)

lemma bezw_inverse:
  assumes m: "0 < m" and g: "gcd (nat (a mod m)) (nat m) = 1"
  shows "(a * (fst (bezw (nat (a mod m)) (nat m)) mod m)) mod m = 1 mod m"
proof -
  define u where "u = fst (bezw (nat (a mod m)) (nat m))"
  define w where "w = snd (bezw (nat (a mod m)) (nat m))"
  have "int (gcd (nat (a mod m)) (nat m)) = u * int (nat (a mod m)) + w * int (nat m)"
    unfolding u_def w_def by (rule bezw_aux)
  then have e: "1 = u * (a mod m) + w * m" using m g by simp
  have "(a * (u mod m)) mod m = ((a mod m) * u) mod m"
    by (simp add: mod_mult_right_eq mod_mult_left_eq)
  also have "\<dots> = (u * (a mod m) + w * m) mod m" by (simp add: mult.commute)
  also have "\<dots> = 1 mod m" using e by simp
  finally show ?thesis unfolding u_def .
qed

lemma mod_inverse_correct:
  assumes "0 < m" and "mod_inverse a m = Inr x"
  shows "(a * x) mod m = 1 mod m" and "0 \<le> x" and "x < m"
proof -
  from assms(2) have g: "gcd (nat (a mod m)) (nat m) = 1"
    and x: "x = fst (bezw (nat (a mod m)) (nat m)) mod m"
    by (auto simp: mod_inverse_def split: if_splits)
  show "(a * x) mod m = 1 mod m" unfolding x using bezw_inverse[OF assms(1) g] .
  show "0 \<le> x" "x < m" using assms(1) by (simp_all add: x)
qed

lemma mod_inverse_unique:
  assumes "0 < m" and "(a * x) mod m = 1 mod m" and "(a * y) mod m = 1 mod m"
    and "0 \<le> x" "x < m" "0 \<le> y" "y < m"
  shows "x = (y::int)"
proof -
  have "x mod m = (x * ((a * y) mod m)) mod m"
    using assms(3) by (simp add: mod_mult_right_eq)
  also have "\<dots> = (((a * x) mod m) * y) mod m"
    by (simp add: mod_mult_right_eq mod_mult_left_eq ac_simps)
  also have "\<dots> = y mod m" using assms(2) by (simp add: mod_mult_left_eq)
  finally show ?thesis using assms(4-7) by simp
qed

lemma mod_inverse_defined:
  "gcd (nat (a mod m)) (nat m) = 1 \<Longrightarrow> \<exists>x. mod_inverse a m = Inr x"
  by (simp add: mod_inverse_def)

lemma mod_inverse_one: "1 < m \<Longrightarrow> mod_inverse 1 m = Inr 1"
proof -
  assume m: "1 < m"
  then obtain x where x: "mod_inverse 1 m = Inr x"
    using mod_inverse_defined[of 1 m] by auto
  have "x = 1"
    using mod_inverse_unique[of m 1 x 1] mod_inverse_correct[OF _ x] m by simp
  with x show ?thesis by simp
qed

lemma secp256k1_order_gt1: "1 < ORDER secp256k1"
  by (simp add: ORDER_def secp256k1_def)

lemma demo_partial:
  "\<exists>s_hex signer'. compute_partial_signature secp256k1 (\<lambda>b. []) demo_signer ''tx_1'' [''node1'']
     = Inr (s_hex, signer')"
  by (simp add: compute_partial_signature_def demo_signer_def padd_def node_index_node1
      mod_inverse_one[OF secp256k1_order_gt1] Let_def)

text \<open>
  A single-participant session with nonce 7: the call returns and the nonce is gone.
\<close>

theorem compute_partial_signature_wipes_nonce_witness:
  "\<exists>s_hex signer' session'.
     compute_partial_signature secp256k1 (\<lambda>b. []) demo_signer ''tx_1'' [''node1'']
       = Inr (s_hex, signer')
     \<and> map_of (sessions signer') ''tx_1'' = Some session' \<and> my_nonce_k session' = None"
proof -
  from demo_partial obtain s_hex signer' where
    r: "compute_partial_signature secp256k1 (\<lambda>b. []) demo_signer ''tx_1'' [''node1'']
          = Inr (s_hex, signer')" by blast
  from compute_partial_signature_wipes_nonce[OF r] r show ?thesis by blast
qed

section \<open>The persisted signer document\<close>












lemma hex_of_nat_small: "n < 16 \<Longrightarrow> hex_of_nat n = [hex_digit n]"
  by (simp add: hex_of_nat.simps)




section \<open>Combination of partial signatures and share verification\<close>

lemma aggregate_nonce_ok:
  "set ps \<subseteq> dom (map_of ncs) \<Longrightarrow>
   aggregate_nonce C ncs R ps = Inr (foldl (padd C) R (map (\<lambda>n. the (map_of ncs n)) ps))"
  by (induction ps arbitrary: R) (auto split: option.splits)

lemma aggregate_nonce_fail:
  "\<not> set ps \<subseteq> dom (map_of ncs) \<Longrightarrow> aggregate_nonce C ncs R ps = Inl KeyError"
  by (induction ps arbitrary: R) (auto split: option.splits)

lemma sum_list_dict:
  "distinct (map fst d) \<Longrightarrow> sum_list (map snd d) = (\<Sum>k \<in> set (map fst d). the (map_of d k))"
proof (induction d)
  case Nil
  then show ?case by simp
next
  case (Cons a d)
  obtain k v where a: "a = (k, v)" by (cases a)
  from Cons.prems a have k: "k \<notin> set (map fst d)" and dd: "distinct (map fst d)" by simp_all
  have "(\<Sum>j \<in> set (map fst d). the (map_of (a # d) j)) = (\<Sum>j \<in> set (map fst d). the (map_of d j))"
    using k a by (intro sum.cong) auto
  then show ?case using Cons.IH[OF dd] k a by simp
qed

text \<open>
  Claim C6, as amended. \<open>combine_signatures\<close> raises (KeyError) exactly when some
  participant has no nonce commitment; otherwise it returns the encoding of the sum of
  the participants' nonce commitments, in list order, and the sum of all the values of
  the partials map modulo \<open>n\<close>, which is the sum over the participants when the keys of
  the map are exactly the participants. A participant without a partial is not detected.
\<close>

theorem combine_signatures_result:
  "(combine_signatures C partials ncs participants = Inl e
      \<longleftrightarrow> e = KeyError \<and> \<not> set participants \<subseteq> dom (map_of ncs))
   \<and> (set participants \<subseteq> dom (map_of ncs) \<longrightarrow>
        combine_signatures C partials ncs participants
          = Inr (point_to_hex (foldl (padd C) IDENTITY (map (\<lambda>n. the (map_of ncs n)) participants)),
                 format_064x (sum_list (dict_values partials) mod ORDER C)))
   \<and> (distinct (map fst partials) \<and> set (map fst partials) = set participants \<longrightarrow>
        sum_list (dict_values partials) = (\<Sum>j \<in> set participants. the (map_of partials j)))"
proof (intro conjI impI)
  show "combine_signatures C partials ncs participants = Inl e
      \<longleftrightarrow> e = KeyError \<and> \<not> set participants \<subseteq> dom (map_of ncs)"
  proof (cases "set participants \<subseteq> dom (map_of ncs)")
    case True
    then show ?thesis by (simp add: combine_signatures_def aggregate_nonce_ok)
  next
    case False
    then show ?thesis by (auto simp: combine_signatures_def aggregate_nonce_fail)
  qed
  show "combine_signatures C partials ncs participants
          = Inr (point_to_hex (foldl (padd C) IDENTITY (map (\<lambda>n. the (map_of ncs n)) participants)),
                 format_064x (sum_list (dict_values partials) mod ORDER C))"
    if "set participants \<subseteq> dom (map_of ncs)"
    using that by (simp add: combine_signatures_def aggregate_nonce_ok)
  show "sum_list (dict_values partials) = (\<Sum>j \<in> set participants. the (map_of partials j))"
    if "distinct (map fst partials) \<and> set (map fst partials) = set participants"
    using that sum_list_dict[of partials] by (simp add: dict_values_def)
qed

lemma secp256k1_G_neg: "point_neg secp256k1 (point_neg secp256k1 (G secp256k1)) = G secp256k1"
  by (simp add: point_neg_def G_def secp256k1_def)

lemma secp256k1_G_not_identity: "G secp256k1 \<noteq> IDENTITY"
  "point_neg secp256k1 (G secp256k1) \<noteq> IDENTITY"
  by (simp_all add: G_def IDENTITY_def secp256k1_def point_neg_def)

lemma secp256k1_G_cancel:
  "padd secp256k1 (G secp256k1) (point_neg secp256k1 (G secp256k1)) = IDENTITY"
  using secp256k1_G_neg secp256k1_G_not_identity by (simp add: padd_def)

lemma padd_identity_left: "padd C IDENTITY P = P"
  by (simp add: padd_def)

lemma zfill_small: "zfill 64 ''5'' = replicate 63 CHR ''0'' @ ''5''"
  by (simp add: zfill_def)

lemma demo_aggregate:
  "foldl (padd secp256k1) IDENTITY (map (\<lambda>n. the (map_of demo_commitments n)) [''node1'', ''node2''])
     = IDENTITY"
  by (simp add: demo_commitments_def padd_identity_left secp256k1_G_cancel)

lemma demo_dom: "set [''node1'', ''node2''] \<subseteq> dom (map_of demo_commitments)"
  by (simp add: demo_commitments_def)

lemma demo_aggregate_nonce:
  "aggregate_nonce secp256k1 demo_commitments IDENTITY [''node1'', ''node2''] = Inr IDENTITY"
  using aggregate_nonce_ok[OF demo_dom, of secp256k1 IDENTITY]
  by (simp only: demo_aggregate)

lemma format_064x_small: "0 \<le> v \<Longrightarrow> v < 16 \<Longrightarrow>
  format_064x v = replicate 63 CHR ''0'' @ [hex_digit (nat v)]"
  by (simp add: format_064x_def hex_of_nat_small zfill_def)

lemma secp256k1_order_big: "16 < ORDER secp256k1"
  by (simp add: ORDER_def secp256k1_def)

text \<open>
  Claim C6 as stated fails: \<open>node2\<close> is a participant without a partial and
  \<open>combine_signatures\<close> returns a result instead of failing.
\<close>

theorem combine_signatures_missing_partial_counterexample:
  "map_of [(''node1'', 5)] ''node2'' = None
   \<and> combine_signatures secp256k1 [(''node1'', 5)] demo_commitments [''node1'', ''node2'']
       = Inr (''00'', replicate 63 CHR ''0'' @ ''5'')"
proof -
  have "combine_signatures secp256k1 [(''node1'', 5)] demo_commitments [''node1'', ''node2'']
       = Inr (point_to_hex IDENTITY, format_064x (5 mod ORDER secp256k1))"
    unfolding combine_signatures_def demo_aggregate_nonce
    by (simp add: dict_values_def)
  moreover have "(5::int) mod ORDER secp256k1 = 5" using secp256k1_order_big by simp
  moreover have "format_064x 5 = replicate 63 CHR ''0'' @ ''5''"
    by (simp add: format_064x_small hex_digit_def)
  moreover have "point_to_hex IDENTITY = ''00''"
    by (simp add: point_to_hex_def is_identity_def IDENTITY_def)
  ultimately show ?thesis by simp
qed

text \<open>
  Two participants with partials 5 and 9 combine to \<open>s = 14\<close>; a participant without
  a nonce commitment raises KeyError.
\<close>

theorem combine_signatures_result_witness:
  "combine_signatures secp256k1 [(''node1'', 5), (''node2'', 9)] demo_commitments
       [''node1'', ''node2'']
     = Inr (''00'', replicate 63 CHR ''0'' @ ''e'')
   \<and> combine_signatures secp256k1 [(''node1'', 5), (''node2'', 9)] demo_commitments
       [''node1'', ''node3''] = Inl KeyError
   \<and> sum_list (dict_values [(''node1'', 5), (''node2'', 9::int)])
     = (\<Sum>j \<in> set [''node1'', ''node2'']. the (map_of [(''node1'', 5), (''node2'', 9)] j))"
proof -
  note t = combine_signatures_result[of secp256k1 "[(''node1'', 5), (''node2'', 9)]"
      demo_commitments _ KeyError]
  have a: "combine_signatures secp256k1 [(''node1'', 5), (''node2'', 9)] demo_commitments
       [''node1'', ''node2'']
     = Inr (point_to_hex IDENTITY, format_064x (14 mod ORDER secp256k1))"
    using t[of "[''node1'', ''node2'']", THEN conjunct2, THEN conjunct1, rule_format, OF demo_dom]
    by (simp only: demo_aggregate) (simp add: dict_values_def)
  have "(14::int) mod ORDER secp256k1 = 14" using secp256k1_order_big by simp
  moreover have "format_064x 14 = replicate 63 CHR ''0'' @ ''e''"
    by (simp add: format_064x_small hex_digit_def)
  moreover have "point_to_hex IDENTITY = ''00''"
    by (simp add: point_to_hex_def is_identity_def IDENTITY_def)
  ultimately have a': "combine_signatures secp256k1 [(''node1'', 5), (''node2'', 9)]
       demo_commitments [''node1'', ''node2''] = Inr (''00'', replicate 63 CHR ''0'' @ ''e'')"
    using a by simp
  have "\<not> set [''node1'', ''node3''] \<subseteq> dom (map_of demo_commitments)"
    by (simp add: demo_commitments_def)
  then have b: "combine_signatures secp256k1 [(''node1'', 5), (''node2'', 9)] demo_commitments
       [''node1'', ''node3''] = Inl KeyError"
    using t[of "[''node1'', ''node3'']", THEN conjunct1] by simp
  have c: "sum_list (dict_values [(''node1'', 5), (''node2'', 9::int)])
     = (\<Sum>j \<in> set [''node1'', ''node2'']. the (map_of [(''node1'', 5), (''node2'', 9)] j))"
    using t[of "[''node1'', ''node2'']", THEN conjunct2, THEN conjunct2] by simp
  from a' b c show ?thesis by (intro conjI)
qed












section \<open>The nonce-derivation counter\<close>
































end
